theory Spec2Isabelle
  imports Main
begin

section \<open>Python values and errors\<close>

text \<open>
  The attribute values FNSS stores on a topology are scalars: strings and numbers.
  Integers are Python's unbounded ints. Floating-point numbers are kept abstract
  (type \<open>'f\<close>): their arithmetic and their conversion to text belong to the Python
  runtime and are passed to the model as a record of operations.
\<close>

datatype 'f pyval = VStr string | VInt int | VFloat 'f

datatype error =
    ImportError string
  | ValueError string
  | KeyError string
  | TypeError
  | OverflowError
  | NameError string

record 'f float_ops =
  float_of_int :: "int \<Rightarrow> 'f option"  \<comment> \<open>\<open>None\<close>: the int is too large for a float\<close>
  float_mul :: "'f \<Rightarrow> 'f \<Rightarrow> 'f"
  float_div :: "'f \<Rightarrow> 'f \<Rightarrow> 'f"  \<comment> \<open>only ever applied to the non-zero literal divisor\<close>
  float_str :: "'f \<Rightarrow> string"
  float_1e6 :: "'f"  \<comment> \<open>the literal \<open>1000000.0\<close>\<close>

fun bind_e :: "error + 'a \<Rightarrow> ('a \<Rightarrow> error + 'b) \<Rightarrow> error + 'b" where
  "bind_e (Inl e) f = Inl e"
| "bind_e (Inr x) f = f x"

text \<open>The decimal digit of a number below ten.\<close>

definition digit_chr :: "nat \<Rightarrow> char" where
  "digit_chr n = ''0123456789'' ! n"

fun nat_str :: "nat \<Rightarrow> string" where
  "nat_str n = (if n < 10 then [digit_chr n] else nat_str (n div 10) @ [digit_chr (n mod 10)])"

declare nat_str.simps [simp del]

definition int_str :: "int \<Rightarrow> string" where
  "int_str i = (if i < 0 then CHR ''-'' # nat_str (nat (- i)) else nat_str (nat i))"

text \<open>Python's \<open>str(x)\<close>.\<close>

fun py_str :: "'f float_ops \<Rightarrow> 'f pyval \<Rightarrow> string" where
  "py_str rt (VStr s) = s"
| "py_str rt (VInt i) = int_str i"
| "py_str rt (VFloat x) = float_str rt x"

definition to_float :: "'f float_ops \<Rightarrow> int \<Rightarrow> error + 'f" where
  "to_float rt i = (case float_of_int rt i of None \<Rightarrow> Inl OverflowError | Some x \<Rightarrow> Inr x)"

text \<open>Python's \<open>a * b\<close>: numbers multiply, a string is repeated by an int, anything else
  is a TypeError.\<close>

fun py_mul :: "'f float_ops \<Rightarrow> 'f pyval \<Rightarrow> 'f pyval \<Rightarrow> error + 'f pyval" where
  "py_mul rt (VInt a) (VInt b) = Inr (VInt (a * b))"
| "py_mul rt (VInt a) (VFloat y) = bind_e (to_float rt a) (\<lambda>x. Inr (VFloat (float_mul rt x y)))"
| "py_mul rt (VFloat x) (VInt b) = bind_e (to_float rt b) (\<lambda>y. Inr (VFloat (float_mul rt x y)))"
| "py_mul rt (VFloat x) (VFloat y) = Inr (VFloat (float_mul rt x y))"
| "py_mul rt (VStr s) (VInt n) = Inr (VStr (concat (replicate (nat n) s)))"
| "py_mul rt (VInt n) (VStr s) = Inr (VStr (concat (replicate (nat n) s)))"
| "py_mul rt (VStr s) (VFloat y) = Inl TypeError"
| "py_mul rt (VFloat x) (VStr s) = Inl TypeError"
| "py_mul rt (VStr s) (VStr s') = Inl TypeError"

text \<open>Python's \<open>a / 1000000.0\<close>.\<close>

fun py_div_1e6 :: "'f float_ops \<Rightarrow> 'f pyval \<Rightarrow> error + 'f pyval" where
  "py_div_1e6 rt (VInt a) =
     bind_e (to_float rt a) (\<lambda>x. Inr (VFloat (float_div rt x (float_1e6 rt))))"
| "py_div_1e6 rt (VFloat x) = Inr (VFloat (float_div rt x (float_1e6 rt)))"
| "py_div_1e6 rt (VStr s) = Inl TypeError"

text \<open>Subscripting a string-keyed dict: \<open>d[k]\<close> raises KeyError on a missing key.\<close>

definition getitem :: "(string \<rightharpoonup> 'a) \<Rightarrow> string \<Rightarrow> error + 'a" where
  "getitem d k = (case d k of None \<Rightarrow> Inl (KeyError k) | Some v \<Rightarrow> Inr v)"

section \<open>The environment of the adapter\<close>

text \<open>
  \<open>fnss.units\<close> is not part of the adapter: its two tables \<open>capacity_units\<close> and
  \<open>time_units\<close>, keyed by unit name, are parameters, as is whether the template
  engine can be imported.
\<close>

record 'f env =
  rt :: "'f float_ops"
  capacity_units :: "string \<rightharpoonup> 'f pyval"
  time_units :: "string \<rightharpoonup> 'f pyval"
  mako_installed :: bool

text \<open>\<open>v in table\<close> and \<open>table[v]\<close> for a table keyed by strings.\<close>

fun unit_in :: "'f pyval \<Rightarrow> (string \<rightharpoonup> 'f pyval) \<Rightarrow> bool" where
  "unit_in (VStr s) tbl = (tbl s \<noteq> None)"
| "unit_in (VInt i) tbl = False"
| "unit_in (VFloat x) tbl = False"

fun unit_get :: "'f float_ops \<Rightarrow> (string \<rightharpoonup> 'f pyval) \<Rightarrow> 'f pyval \<Rightarrow> error + 'f pyval" where
  "unit_get r tbl (VStr s) = getitem tbl s"
| "unit_get r tbl v = Inl (KeyError (py_str r v))"

section \<open>Topologies\<close>

type_synonym 'f props = "(string \<times> 'f pyval) list"

record 'f node_data =
  stack :: "(string \<times> 'f props) option"
  application :: "(string \<times> 'f props) list"

text \<open>
  A topology as the adapter reads it: the graph attributes, the directedness flag, the
  nodes and edges in iteration order, the per-node data and the per-direction edge
  attribute lookup \<open>topology.edge[u][v]\<close>.
\<close>

record 'f topology =
  graph :: "string \<rightharpoonup> 'f pyval"
  is_directed :: bool
  nodes_iter :: "'f pyval list"
  node :: "'f pyval \<Rightarrow> 'f node_data"
  edges_iter :: "('f pyval \<times> 'f pyval) list"
  edge :: "'f pyval \<Rightarrow> 'f pyval \<Rightarrow> (string \<rightharpoonup> 'f pyval)"

text \<open>Modelled from the spec: \<open>get_stack\<close> of \<open>fnss.netconfig.nodeconfig\<close>, the
  node's protocol stack as a name and a property mapping, or nothing.\<close>

definition get_stack :: "'f topology \<Rightarrow> 'f pyval \<Rightarrow> (string \<times> 'f props) option" where
  "get_stack topo n = stack (node topo n)"

text \<open>Modelled from the spec: \<open>get_application_names\<close> of
  \<open>fnss.netconfig.nodeconfig\<close>, the names of the node's applications in listing
  order.\<close>

definition get_application_names :: "'f topology \<Rightarrow> 'f pyval \<Rightarrow> string list" where
  "get_application_names topo n = map fst (application (node topo n))"

text \<open>Modelled from the spec: \<open>get_application_properties\<close> of
  \<open>fnss.netconfig.nodeconfig\<close>, the property mapping of the named application.\<close>

definition get_application_properties ::
  "'f topology \<Rightarrow> 'f pyval \<Rightarrow> string \<Rightarrow> error + 'f props" where
  "get_application_properties topo n name = getitem (map_of (application (node topo n))) name"

text \<open>\<open>k in props\<close> for a property mapping.\<close>

definition has_key :: "string \<Rightarrow> 'f props \<Rightarrow> bool" where
  "has_key k ps = (map_of ps k \<noteq> None)"

section \<open>validate_ns2_stacks\<close>

text \<open>The inner loop over the application names of one node: \<open>Inr False\<close> is the
  early \<open>return False\<close>, \<open>Inr True\<close> is falling through.\<close>

fun validate_apps :: "'f topology \<Rightarrow> 'f pyval \<Rightarrow> string list \<Rightarrow> error + bool" where
  "validate_apps topo n [] = Inr True"
| "validate_apps topo n (name # names) =
     bind_e (get_application_properties topo n name) (\<lambda>ps.
       if \<not> has_key ''class'' ps then Inr False else validate_apps topo n names)"

definition validate_node :: "'f topology \<Rightarrow> 'f pyval \<Rightarrow> error + bool" where
  "validate_node topo n =
     (let applications = get_application_names topo n in
      bind_e (validate_apps topo n applications) (\<lambda>ok.
        if \<not> ok then Inr False
        else (case get_stack topo n of
                None \<Rightarrow> if length applications > 0 then Inr False else Inr True
              | Some st \<Rightarrow> if \<not> has_key ''class'' (snd st) then Inr False else Inr True)))"

fun validate_nodes :: "'f topology \<Rightarrow> 'f pyval list \<Rightarrow> error + bool" where
  "validate_nodes topo [] = Inr True"
| "validate_nodes topo (n # ns) =
     bind_e (validate_node topo n) (\<lambda>ok.
       if \<not> ok then Inr False else validate_nodes topo ns)"

definition validate_ns2_stacks :: "'f topology \<Rightarrow> error + bool" where
  "validate_ns2_stacks topo = validate_nodes topo (nodes_iter topo)"

section \<open>The template\<close>

text \<open>
  The template engine is an external facility, so the template is modelled by what it
  renders: a list of output lines. Control lines (\<open>% for\<close>, \<open>% if\<close>), \<open>##\<close> comments
  and \<open><% ... %>\<close> blocks closed by a backslash render nothing; every other line of
  the template renders one output line. A Python exception anywhere in the template
  aborts the rendering as a whole.
\<close>

text \<open>A \<open>% for\<close> loop whose body renders lines and may raise.\<close>

fun for_lines :: "('a \<Rightarrow> error + string list) \<Rightarrow> 'a list \<Rightarrow> error + string list" where
  "for_lines body [] = Inr []"
| "for_lines body (x # xs) =
     bind_e (body x) (\<lambda>ls. bind_e (for_lines body xs) (\<lambda>rest. Inr (ls @ rest)))"

definition node_command :: "string \<Rightarrow> string" where
  "node_command n = ''set n'' @ n @ '' [$ns node]''"

definition link_command :: "string \<Rightarrow> string \<Rightarrow> string \<Rightarrow> string \<Rightarrow> string \<Rightarrow> string" where
  "link_command kind u v capacity delay =
     ''$ns '' @ kind @ '' $n'' @ u @ '' $n'' @ v @ '' '' @ capacity @ ''Mb '' @ delay @ ''ms $qtype''"

definition edge_command :: "string \<Rightarrow> string \<Rightarrow> string \<Rightarrow> string \<Rightarrow> string" where
  "edge_command cmd u v x = ''$ns '' @ cmd @ '' $n'' @ u @ '' $n'' @ v @ '' '' @ x"

definition new_command :: "string \<Rightarrow> string \<Rightarrow> string" where
  "new_command name cls = ''set '' @ name @ '' [new '' @ cls @ '']''"

definition set_command :: "string \<Rightarrow> string \<Rightarrow> string \<Rightarrow> string" where
  "set_command name prop val = ''$'' @ name @ '' set '' @ prop @ '' '' @ val"

definition attach_node_command :: "string \<Rightarrow> string \<Rightarrow> string" where
  "attach_node_command n name = ''$ns attach-agent $n'' @ n @ '' $'' @ name"

definition attach_app_command :: "string \<Rightarrow> string \<Rightarrow> string" where
  "attach_app_command app name = ''$'' @ app @ '' attach-agent $'' @ name"

text \<open>\<open>delay = "0" if not set_delays else str(topology.edge[u][v]['delay'] * delay_norm)\<close>;
  \<open>delay_norm\<close> is bound only when \<open>set_delays\<close> holds.\<close>

definition link_delay ::
  "'f float_ops \<Rightarrow> 'f topology \<Rightarrow> bool \<Rightarrow> 'f pyval option \<Rightarrow> 'f pyval \<Rightarrow> 'f pyval \<Rightarrow> error + string" where
  "link_delay r topo set_delays delay_norm u v =
     (if \<not> set_delays then Inr ''0''
      else bind_e (getitem (edge topo u v) ''delay'') (\<lambda>d.
             case delay_norm of
               None \<Rightarrow> Inl (NameError ''delay_norm'')
             | Some dn \<Rightarrow> bind_e (py_mul r d dn) (\<lambda>x. Inr (py_str r x))))"

definition link_line ::
  "'f float_ops \<Rightarrow> 'f topology \<Rightarrow> string \<Rightarrow> 'f pyval \<Rightarrow> bool \<Rightarrow> 'f pyval option \<Rightarrow>
   'f pyval \<times> 'f pyval \<Rightarrow> error + string list" where
  "link_line r topo kind capacity_norm set_delays delay_norm e =
     (case e of (u, v) \<Rightarrow>
        bind_e (link_delay r topo set_delays delay_norm u v) (\<lambda>delay.
        bind_e (getitem (edge topo u v) ''capacity'') (\<lambda>c.
        bind_e (py_mul r c capacity_norm) (\<lambda>x.
          Inr [link_command kind (py_str r u) (py_str r v) (py_str r x) delay]))))"

definition render_links ::
  "'f float_ops \<Rightarrow> 'f topology \<Rightarrow> 'f pyval \<Rightarrow> bool \<Rightarrow> 'f pyval option \<Rightarrow> error + string list" where
  "render_links r topo capacity_norm set_delays delay_norm =
     (if is_directed topo
      then for_lines (link_line r topo ''simplex-link'' capacity_norm set_delays delay_norm)
             (edges_iter topo)
      else for_lines (link_line r topo ''duplex-link'' capacity_norm set_delays delay_norm)
             (edges_iter topo))"

text \<open>The body shared by the weight and the buffer section: one command for \<open>(u, v)\<close>
  and, when the topology is undirected, a second one for \<open>(v, u)\<close>.\<close>

definition direction_lines ::
  "'f float_ops \<Rightarrow> 'f topology \<Rightarrow> string \<Rightarrow> string \<Rightarrow> 'f pyval \<times> 'f pyval \<Rightarrow> error + string list" where
  "direction_lines r topo cmd key e =
     (case e of (u, v) \<Rightarrow>
        bind_e (getitem (edge topo u v) key) (\<lambda>x.
          if \<not> is_directed topo
          then bind_e (getitem (edge topo v u) key) (\<lambda>y.
                 Inr [edge_command cmd (py_str r u) (py_str r v) (py_str r x),
                      edge_command cmd (py_str r v) (py_str r u) (py_str r y)])
          else Inr [edge_command cmd (py_str r u) (py_str r v) (py_str r x)]))"

definition render_weights :: "'f float_ops \<Rightarrow> 'f topology \<Rightarrow> bool \<Rightarrow> error + string list" where
  "render_weights r topo set_weights =
     (if set_weights
      then bind_e (for_lines (direction_lines r topo ''cost'' ''weight'') (edges_iter topo))
             (\<lambda>ls. Inr (''# Set link weights'' # ls))
      else Inr [])"

definition render_buffers :: "'f float_ops \<Rightarrow> 'f topology \<Rightarrow> bool \<Rightarrow> error + string list" where
  "render_buffers r topo set_buffers =
     (if set_buffers
      then bind_e (for_lines (direction_lines r topo ''queue-limit'' ''buffer'') (edges_iter topo))
             (\<lambda>ls. Inr (''# Set queue sizes'' # ls))
      else Inr [])"

definition prop_lines :: "'f float_ops \<Rightarrow> string \<Rightarrow> 'f props \<Rightarrow> string list" where
  "prop_lines r name ps =
     concat (map (\<lambda>(prop_name, prop_val).
                    if prop_name = ''class'' then []
                    else [set_command name prop_name (py_str r prop_val)]) ps)"

definition app_lines ::
  "'f float_ops \<Rightarrow> 'f topology \<Rightarrow> 'f pyval \<Rightarrow> string \<Rightarrow> string \<Rightarrow> error + string list" where
  "app_lines r topo n stack_name app_name =
     bind_e (get_application_properties topo n app_name) (\<lambda>app_properties.
     bind_e (getitem (map_of app_properties) ''class'') (\<lambda>app_class.
       Inr (new_command app_name (py_str r app_class)
            # prop_lines r app_name app_properties
            @ [attach_app_command app_name stack_name])))"

definition node_stack_lines :: "'f float_ops \<Rightarrow> 'f topology \<Rightarrow> 'f pyval \<Rightarrow> error + string list" where
  "node_stack_lines r topo n =
     (case get_stack topo n of
        None \<Rightarrow> Inr []
      | Some st \<Rightarrow>
          (case st of (stack_name, stack_props) \<Rightarrow>
             bind_e (getitem (map_of stack_props) ''class'') (\<lambda>stack_class.
             bind_e (for_lines (app_lines r topo n stack_name) (get_application_names topo n))
               (\<lambda>apps.
                 Inr (new_command stack_name (py_str r stack_class)
                      # prop_lines r stack_name stack_props
                      @ [attach_node_command (py_str r n) stack_name]
                      @ apps)))))"

definition render_stacks :: "'f float_ops \<Rightarrow> 'f topology \<Rightarrow> bool \<Rightarrow> error + string list" where
  "render_stacks r topo deploy_stacks =
     (if deploy_stacks
      then bind_e (for_lines (node_stack_lines r topo) (nodes_iter topo))
             (\<lambda>ls. Inr (''# Deploy applications and agents'' # ls))
      else Inr [])"

text \<open>\<open>capacity_norm = capacity_units[topology.graph['capacity_unit']] / 1000000.0\<close>\<close>

definition capacity_norm_of :: "'f env \<Rightarrow> 'f topology \<Rightarrow> error + 'f pyval" where
  "capacity_norm_of env topo =
     bind_e (getitem (graph topo) ''capacity_unit'') (\<lambda>cu.
     bind_e (unit_get (rt env) (capacity_units env) cu) (\<lambda>c.
       py_div_1e6 (rt env) c))"

text \<open>\<open>if set_delays: delay_norm = time_units[topology.graph['delay_unit']]\<close>\<close>

definition delay_norm_of :: "'f env \<Rightarrow> 'f topology \<Rightarrow> bool \<Rightarrow> error + 'f pyval option" where
  "delay_norm_of env topo set_delays =
     (if set_delays
      then bind_e (getitem (graph topo) ''delay_unit'') (\<lambda>du.
           bind_e (unit_get (rt env) (time_units env) du) (\<lambda>d. Inr (Some d)))
      else Inr None)"

definition layout ::
  "string list \<Rightarrow> string list \<Rightarrow> string list \<Rightarrow> string list \<Rightarrow> string list \<Rightarrow> string list" where
  "layout nodes links weights buffers stacks =
     [''# Code generated by Fast Network Simulator Setup (FNSS)'', [],
      ''# Create a simulator object'', ''set ns [new Simulator]'', [],
      ''# Create nodes'']
     @ nodes
     @ [[], ''# Create all links'', ''set qtype DropTail'']
     @ links
     @ [[]] @ weights
     @ [[]] @ buffers
     @ [[]] @ stacks"

definition render ::
  "'f env \<Rightarrow> 'f topology \<Rightarrow> bool \<Rightarrow> bool \<Rightarrow> bool \<Rightarrow> bool \<Rightarrow> error + string list" where
  "render env topo deploy_stacks set_delays set_buffers set_weights =
     bind_e (capacity_norm_of env topo) (\<lambda>capacity_norm.
     bind_e (delay_norm_of env topo set_delays) (\<lambda>delay_norm.
     bind_e (render_links (rt env) topo capacity_norm set_delays delay_norm) (\<lambda>links.
     bind_e (render_weights (rt env) topo set_weights) (\<lambda>weights.
     bind_e (render_buffers (rt env) topo set_buffers) (\<lambda>buffers.
     bind_e (render_stacks (rt env) topo deploy_stacks) (\<lambda>stacks.
       Inr (layout (map (\<lambda>n. node_command (py_str (rt env) n)) (nodes_iter topo))
              links weights buffers stacks)))))))"

definition unlines :: "string list \<Rightarrow> string" where
  "unlines ls = concat (map (\<lambda>l. l @ [CHR 0x0A]) ls)"

section \<open>to_ns2\<close>

text \<open>What the conversion can change: the files, by path, and the warnings issued.\<close>

record state =
  files :: "string \<rightharpoonup> string"
  warnings :: "string list"

definition warn :: "string \<Rightarrow> state \<Rightarrow> state" where
  "warn msg s = s\<lparr>warnings := warnings s @ [msg]\<rparr>"

definition weights_enabled :: "'f topology \<Rightarrow> bool" where
  "weights_enabled topo =
     list_all (\<lambda>(u, v). edge topo u v ''weight'' \<noteq> None) (edges_iter topo)"

definition buffer_missing_msg :: string where
  "buffer_missing_msg = ''Missing buffer size unit attribute in the topology. ''
     @ ''Output file will be generated without buffer assignments.''"

definition buffer_unit_msg :: "string \<Rightarrow> string" where
  "buffer_unit_msg u = ''The buffer size unit of the topology is '' @ u
     @ ''. The only supported unit is packets. Output file will be generated without buffer ''
     @ ''assignments''"

definition delay_msg :: string where
  "delay_msg = ''Missing or invalid delay unit attribute in the topology. The ''
     @ ''output file will be generated with all link delays set to 0.''"

definition stacks_msg :: string where
  "stacks_msg = ''Some application stacks cannot be parsed correctly. The ''
     @ ''output file will be generated without stack assignments.''"

definition check_buffers :: "'f float_ops \<Rightarrow> 'f topology \<Rightarrow> state \<Rightarrow> bool \<times> state" where
  "check_buffers r topo s =
     (case graph topo ''buffer_unit'' of
        None \<Rightarrow> (False, warn buffer_missing_msg s)
      | Some bu \<Rightarrow>
          if \<not> bu = VStr ''packets'' then (False, warn (buffer_unit_msg (py_str r bu)) s)
          else (True, s))"

definition check_delays :: "'f env \<Rightarrow> 'f topology \<Rightarrow> state \<Rightarrow> bool \<times> state" where
  "check_delays env topo s =
     (if (case graph topo ''delay_unit'' of
            None \<Rightarrow> True
          | Some du \<Rightarrow> \<not> unit_in du (time_units env))
      then (False, warn delay_msg s)
      else (True, s))"

definition check_stacks :: "'f topology \<Rightarrow> bool \<Rightarrow> state \<Rightarrow> (error + bool) \<times> state" where
  "check_stacks topo stacks s =
     (if stacks
      then (case validate_ns2_stacks topo of
              Inl e \<Rightarrow> (Inl e, s)
            | Inr valid \<Rightarrow>
                (let (stacks1, s1) = (if \<not> valid then (False, warn stacks_msg s) else (stacks, s)) in
                 if \<not> list_ex (\<lambda>v. stack (node topo v) \<noteq> None) (nodes_iter topo)
                 then (Inr False, s1)
                 else (Inr stacks1, s1)))
      else (Inr stacks, s))"

definition write_output ::
  "'f env \<Rightarrow> 'f topology \<Rightarrow> string \<Rightarrow> bool \<Rightarrow> bool \<Rightarrow> bool \<Rightarrow> bool \<Rightarrow> state \<Rightarrow> (error + unit) \<times> state" where
  "write_output env topo path deploy_stacks set_delays set_buffers set_weights s =
     (let opened = s\<lparr>files := (files s)(path \<mapsto> [])\<rparr> in
      case render env topo deploy_stacks set_delays set_buffers set_weights of
        Inl e \<Rightarrow> (Inl e, opened)
      | Inr ls \<Rightarrow> (Inr (), opened\<lparr>files := (files opened)(path \<mapsto> unlines ls)\<rparr>))"

definition to_ns2 ::
  "'f env \<Rightarrow> 'f topology \<Rightarrow> string \<Rightarrow> bool \<Rightarrow> state \<Rightarrow> (error + unit) \<times> state" where
  "to_ns2 env topo path stacks s =
     (if \<not> mako_installed env
      then (Inl (ImportError (''Cannot import mako.template module. ''
                    @ ''Make sure mako is installed on this machine.'')), s)
      else
        let set_weights = weights_enabled topo in
        case graph topo ''capacity_unit'' of
          None \<Rightarrow> (Inl (ValueError ''The given topology does not have capacity data.''), s)
        | Some cu \<Rightarrow>
            if \<not> unit_in cu (capacity_units env)
            then (Inl (ValueError ''The given topology does not have a valid capacity unit''), s)
            else
              (case check_buffers (rt env) topo s of (set_buffers, s1) \<Rightarrow>
               case check_delays env topo s1 of (set_delays, s2) \<Rightarrow>
               case check_stacks topo stacks s2 of
                 (Inl e, s3) \<Rightarrow> (Inl e, s3)
               | (Inr deploy_stacks, s3) \<Rightarrow>
                   write_output env topo path deploy_stacks set_delays set_buffers set_weights s3))"

section \<open>Predicates used in the statements\<close>

text \<open>What \<open>validate_ns2_stacks\<close> requires of one node: every application listed on it
  has a \<open>class\<close> property, a node without a stack has no application, and a stack has a
  \<open>class\<close> property.\<close>

definition node_valid :: "'f topology \<Rightarrow> 'f pyval \<Rightarrow> bool" where
  "node_valid topo n \<longleftrightarrow>
     (\<forall>name \<in> set (get_application_names topo n).
        \<exists>ps. get_application_properties topo n name = Inr ps \<and> has_key ''class'' ps)
     \<and> (case get_stack topo n of
          None \<Rightarrow> get_application_names topo n = []
        | Some st \<Rightarrow> has_key ''class'' (snd st))"

text \<open>The settings \<open>to_ns2\<close> derives from the topology before rendering.\<close>

definition buffers_enabled :: "'f topology \<Rightarrow> bool" where
  "buffers_enabled topo \<longleftrightarrow> graph topo ''buffer_unit'' = Some (VStr ''packets'')"

definition delays_enabled :: "'f env \<Rightarrow> 'f topology \<Rightarrow> bool" where
  "delays_enabled env topo =
     (case graph topo ''delay_unit'' of None \<Rightarrow> False | Some du \<Rightarrow> unit_in du (time_units env))"

definition stacks_valid :: "'f topology \<Rightarrow> bool" where
  "stacks_valid topo \<longleftrightarrow> validate_ns2_stacks topo = Inr True"

definition declares_stack :: "'f topology \<Rightarrow> bool" where
  "declares_stack topo \<longleftrightarrow> list_ex (\<lambda>v. stack (node topo v) \<noteq> None) (nodes_iter topo)"

definition stacks_enabled :: "'f topology \<Rightarrow> bool \<Rightarrow> bool" where
  "stacks_enabled topo stacks \<longleftrightarrow> stacks \<and> stacks_valid topo \<and> declares_stack topo"

text \<open>The diagnostics of one run, in the order they are issued: about the buffer unit,
  about the delay unit, about the stacks.\<close>

definition buffer_diagnostics :: "'f float_ops \<Rightarrow> 'f topology \<Rightarrow> string list" where
  "buffer_diagnostics r topo =
     (case graph topo ''buffer_unit'' of
        None \<Rightarrow> [buffer_missing_msg]
      | Some bu \<Rightarrow> if bu = VStr ''packets'' then [] else [buffer_unit_msg (py_str r bu)])"

definition delay_diagnostics :: "'f env \<Rightarrow> 'f topology \<Rightarrow> string list" where
  "delay_diagnostics env topo = (if delays_enabled env topo then [] else [delay_msg])"

definition stack_diagnostics :: "'f topology \<Rightarrow> bool \<Rightarrow> string list" where
  "stack_diagnostics topo stacks = (if stacks \<and> \<not> stacks_valid topo then [stacks_msg] else [])"

definition diagnostics :: "'f env \<Rightarrow> 'f topology \<Rightarrow> bool \<Rightarrow> string list" where
  "diagnostics env topo stacks =
     buffer_diagnostics (rt env) topo @ delay_diagnostics env topo @ stack_diagnostics topo stacks"

definition warned :: "string list \<Rightarrow> state \<Rightarrow> state" where
  "warned msgs s = s\<lparr>warnings := warnings s @ msgs\<rparr>"

text \<open>The sections of the script, each rendered under the setting \<open>to_ns2\<close> derives
  for it.\<close>

definition node_section :: "'f env \<Rightarrow> 'f topology \<Rightarrow> string list" where
  "node_section env topo = map (\<lambda>n. node_command (py_str (rt env) n)) (nodes_iter topo)"

definition link_section :: "'f env \<Rightarrow> 'f topology \<Rightarrow> error + string list" where
  "link_section env topo =
     bind_e (capacity_norm_of env topo) (\<lambda>capacity_norm.
     bind_e (delay_norm_of env topo (delays_enabled env topo)) (\<lambda>delay_norm.
       render_links (rt env) topo capacity_norm (delays_enabled env topo) delay_norm))"

definition weight_section :: "'f env \<Rightarrow> 'f topology \<Rightarrow> error + string list" where
  "weight_section env topo = render_weights (rt env) topo (weights_enabled topo)"

definition buffer_section :: "'f env \<Rightarrow> 'f topology \<Rightarrow> error + string list" where
  "buffer_section env topo = render_buffers (rt env) topo (buffers_enabled topo)"

definition stack_section :: "'f env \<Rightarrow> 'f topology \<Rightarrow> bool \<Rightarrow> error + string list" where
  "stack_section env topo stacks = render_stacks (rt env) topo (stacks_enabled topo stacks)"

text \<open>The script made of the given link, weight, buffer and stack sections.\<close>

definition script ::
  "'f env \<Rightarrow> 'f topology \<Rightarrow> string list \<Rightarrow> string list \<Rightarrow> string list \<Rightarrow> string list \<Rightarrow> string" where
  "script env topo links weights buffers stks =
     unlines (layout (node_section env topo) links weights buffers stks)"



text \<open>The commands of an edge in the weight and the buffer section: one for \<open>(u, v)\<close>
  on a directed topology; on an undirected one a second for \<open>(v, u)\<close>, each with the
  value stored for its own direction.\<close>

definition direction_commands ::
  "'f float_ops \<Rightarrow> 'f topology \<Rightarrow> string \<Rightarrow> string \<Rightarrow> 'f pyval \<times> 'f pyval \<Rightarrow> string list \<Rightarrow> bool" where
  "direction_commands r topo cmd key e ls \<longleftrightarrow>
     (case e of (u, v) \<Rightarrow>
        if is_directed topo
        then \<exists>x. edge topo u v key = Some x
               \<and> ls = [edge_command cmd (py_str r u) (py_str r v) (py_str r x)]
        else \<exists>x y. edge topo u v key = Some x \<and> edge topo v u key = Some y
               \<and> ls = [edge_command cmd (py_str r u) (py_str r v) (py_str r x),
                       edge_command cmd (py_str r v) (py_str r u) (py_str r y)])"

section \<open>Example inputs\<close>

text \<open>
  A runtime for evaluating examples: floats with whole-number values, on which the
  arithmetic of doubles is exact, printed the way Python prints them (\<open>1000.0\<close>).
\<close>

definition example_float_ops :: "int float_ops" where
  "example_float_ops =
     \<lparr>float_of_int = Some, float_mul = (\<lambda>x y. x * y), float_div = (\<lambda>x y. x div y),
      float_str = (\<lambda>x. int_str x @ ''.0''), float_1e6 = 1000000\<rparr>"

definition example_env :: "int env" where
  "example_env =
     \<lparr>rt = example_float_ops,
      capacity_units = [''Gbps'' \<mapsto> VInt 1000000000, ''Mbps'' \<mapsto> VInt 1000000],
      time_units = [''ms'' \<mapsto> VInt 1, ''s'' \<mapsto> VInt 1000],
      mako_installed = True\<rparr>"

definition example_attrs :: "string \<rightharpoonup> int pyval" where
  "example_attrs = [''capacity'' \<mapsto> VInt 1, ''delay'' \<mapsto> VInt 2, ''weight'' \<mapsto> VInt 3,
     ''buffer'' \<mapsto> VInt 4]"

definition example_node :: "int pyval \<Rightarrow> int node_data" where
  "example_node n =
     (if n = VInt 1
      then \<lparr>stack = Some (''tcp'', [(''class'', VStr ''Agent/TCP''), (''window_'', VInt 20)]),
            application = [(''ftp'', [(''class'', VStr ''Application/FTP'')])]\<rparr>
      else \<lparr>stack = None, application = []\<rparr>)"

text \<open>Two nodes joined by one undirected link; node 1 runs FTP over TCP.\<close>

definition example_topology :: "int topology" where
  "example_topology =
     \<lparr>graph = [''capacity_unit'' \<mapsto> VStr ''Gbps'', ''delay_unit'' \<mapsto> VStr ''ms'',
               ''buffer_unit'' \<mapsto> VStr ''packets''],
      is_directed = False,
      nodes_iter = [VInt 1, VInt 2],
      node = example_node,
      edges_iter = [(VInt 1, VInt 2)],
      edge = (\<lambda>u v. example_attrs)\<rparr>"

text \<open>A node holding one application that has no \<open>class\<close> property, and no stack.\<close>

definition classless_node :: "int pyval \<Rightarrow> int node_data" where
  "classless_node n = \<lparr>stack = None, application = [(''ftp'', [(''rate'', VInt 5)])]\<rparr>"

text \<open>A node with neither stack nor application.\<close>

definition bare_node :: "int pyval \<Rightarrow> int node_data" where
  "bare_node n = \<lparr>stack = None, application = []\<rparr>"

definition empty_state :: state where
  "empty_state = \<lparr>files = Map.empty, warnings = []\<rparr>"

definition stackless_topology :: "int topology" where
  "stackless_topology = example_topology\<lparr>node := bare_node\<rparr>"

definition example_nodes :: "string list" where
  "example_nodes = [''set n1 [$ns node]'', ''set n2 [$ns node]'']"

definition example_links :: "string list" where
  "example_links = [''$ns duplex-link $n1 $n2 1000.0Mb 2ms $qtype'']"

definition example_weights :: "string list" where
  "example_weights = [''# Set link weights'', ''$ns cost $n1 $n2 3'', ''$ns cost $n2 $n1 3'']"

definition example_buffers :: "string list" where
  "example_buffers =
     [''# Set queue sizes'', ''$ns queue-limit $n1 $n2 4'', ''$ns queue-limit $n2 $n1 4'']"

definition example_stacks :: "string list" where
  "example_stacks =
     [''# Deploy applications and agents'', ''set tcp [new Agent/TCP]'', ''$tcp set window_ 20'',
      ''$ns attach-agent $n1 $tcp'', ''set ftp [new Application/FTP]'', ''$ftp attach-agent $tcp'']"

definition classless_topology :: "int topology" where
  "classless_topology = example_topology\<lparr>node := classless_node\<rparr>"

text \<open>A directed variant of the example with no delay unit, a buffer unit other than
  packets, and edges that carry a capacity and a buffer size only.\<close>

definition reduced_attrs :: "string \<rightharpoonup> int pyval" where
  "reduced_attrs = [''capacity'' \<mapsto> VInt 1, ''buffer'' \<mapsto> VInt 4]"

definition reduced_topology :: "int topology" where
  "reduced_topology =
     \<lparr>graph = [''capacity_unit'' \<mapsto> VStr ''Gbps'', ''buffer_unit'' \<mapsto> VStr ''bytes''],
      is_directed = True,
      nodes_iter = [VInt 1, VInt 2],
      node = example_node,
      edges_iter = [(VInt 1, VInt 2)],
      edge = (\<lambda>u v. reduced_attrs)\<rparr>"

definition reduced_links :: "string list" where
  "reduced_links = [''$ns simplex-link $n1 $n2 1000.0Mb 0ms $qtype'']"

text \<open>The topology with the \<open>delay\<close> attribute of every edge direction replaced (or
  removed, where \<open>d\<close> gives nothing).\<close>

definition with_delays ::
  "('f pyval \<Rightarrow> 'f pyval \<Rightarrow> 'f pyval option) \<Rightarrow> 'f topology \<Rightarrow> 'f topology" where
  "with_delays d topo = topo\<lparr>edge := (\<lambda>u v. (edge topo u v)(''delay'' := d u v))\<rparr>"


section \<open>The stack validator\<close>

lemma get_application_properties_listed:
  "name \<in> set (get_application_names topo n) \<Longrightarrow>
   \<exists>ps. get_application_properties topo n name = Inr ps"
  unfolding get_application_names_def get_application_properties_def getitem_def
  by (cases "map_of (application (node topo n)) name") (auto simp: map_of_eq_None_iff)

lemma validate_apps_eq:
  "set names \<subseteq> set (get_application_names topo n) \<Longrightarrow>
   validate_apps topo n names =
     Inr (\<forall>name \<in> set names. \<exists>ps. get_application_properties topo n name = Inr ps \<and> has_key ''class'' ps)"
proof (induction names)
  case Nil
  then show ?case by simp
next
  case (Cons name names)
  then obtain ps where ps: "get_application_properties topo n name = Inr ps"
    using get_application_properties_listed [of name topo n] by auto
  from Cons have "validate_apps topo n names =
     Inr (\<forall>name \<in> set names. \<exists>ps. get_application_properties topo n name = Inr ps \<and> has_key ''class'' ps)"
    by simp
  with ps show ?case by simp
qed

lemma validate_node_eq: "validate_node topo n = Inr (node_valid topo n)"
  unfolding validate_node_def node_valid_def Let_def
  by (simp add: validate_apps_eq split: option.splits)

lemma validate_nodes_eq: "validate_nodes topo ns = Inr (\<forall>n \<in> set ns. node_valid topo n)"
  by (induction ns) (simp_all add: validate_node_eq)

lemma validate_ns2_stacks_eq:
  "validate_ns2_stacks topo = Inr (\<forall>n \<in> set (nodes_iter topo). node_valid topo n)"
  unfolding validate_ns2_stacks_def by (rule validate_nodes_eq)

text \<open>
  Claim C2. \<open>validate_ns2_stacks\<close> never raises and returns true exactly when, for every
  node, each of its applications has a property mapping containing \<open>class\<close>, a node
  without a stack has no application, and a node's stack has a property mapping
  containing \<open>class\<close>. So it returns false as soon as one node has an application
  without \<open>class\<close>, or applications but no stack, or a stack without \<open>class\<close>.
\<close>

theorem validate_ns2_stacks_iff:
  "validate_ns2_stacks topo =
     Inr (\<forall>n \<in> set (nodes_iter topo).
            (\<forall>name \<in> set (get_application_names topo n).
               \<exists>ps. get_application_properties topo n name = Inr ps \<and> has_key ''class'' ps)
          \<and> (case get_stack topo n of
               None \<Rightarrow> get_application_names topo n = []
             | Some st \<Rightarrow> has_key ''class'' (snd st)))"
  unfolding validate_ns2_stacks_eq node_valid_def ..

theorem validate_ns2_stacks_iff_witness:
  "validate_ns2_stacks example_topology = Inr True
   \<and> validate_ns2_stacks (example_topology\<lparr>node := classless_node\<rparr>) = Inr False"
  using validate_ns2_stacks_iff [of example_topology]
    validate_ns2_stacks_iff [of "example_topology\<lparr>node := classless_node\<rparr>"]
  by (auto simp: example_topology_def example_node_def classless_node_def get_stack_def
      get_application_names_def get_application_properties_def getitem_def has_key_def)

section \<open>The fatal capacity check\<close>

text \<open>
  Claim C1. When the graph attributes have no \<open>capacity_unit\<close>, or its value is not a
  key of \<open>capacity_units\<close>, \<open>to_ns2\<close> raises and leaves the files and the warnings as
  they were: nothing is created or written at the output path. With the template engine
  installed the exception is the ValueError of the capacity check.
\<close>

theorem to_ns2_capacity_unit_error:
  assumes "graph topo ''capacity_unit'' = None
           \<or> (\<exists>cu. graph topo ''capacity_unit'' = Some cu \<and> \<not> unit_in cu (capacity_units env))"
  shows "\<exists>e. to_ns2 env topo path stacks s = (Inl e, s)
             \<and> (mako_installed env \<longrightarrow> (\<exists>msg. e = ValueError msg))"
  using assms unfolding to_ns2_def Let_def by auto

theorem to_ns2_capacity_unit_error_witness:
  "graph (example_topology\<lparr>graph := Map.empty\<rparr>) ''capacity_unit'' = None
   \<and> to_ns2 example_env (example_topology\<lparr>graph := Map.empty\<rparr>) ''out.tcl'' True empty_state
       = (Inl (ValueError ''The given topology does not have capacity data.''), empty_state)
   \<and> files (snd (to_ns2 example_env (example_topology\<lparr>graph := Map.empty\<rparr>) ''out.tcl'' True
        empty_state)) ''out.tcl'' = None"
proof -
  have h: "graph (example_topology\<lparr>graph := Map.empty\<rparr>) ''capacity_unit'' = None
           \<or> (\<exists>cu. graph (example_topology\<lparr>graph := Map.empty\<rparr>) ''capacity_unit'' = Some cu
                \<and> \<not> unit_in cu (capacity_units example_env))"
    by simp
  from to_ns2_capacity_unit_error [OF h, of "''out.tcl''" True empty_state]
  show ?thesis
    by (auto simp: to_ns2_def example_env_def empty_state_def)
qed

section \<open>The settings and diagnostics of a run\<close>

lemma warned_Nil [simp]: "warned [] s = s"
  by (simp add: warned_def)

lemma warned_warned [simp]: "warned b (warned a s) = warned (a @ b) s"
  by (simp add: warned_def)

lemma warn_warned: "warn msg s = warned [msg] s"
  by (simp add: warn_def warned_def)

lemma check_buffers_eq:
  "check_buffers r topo s = (buffers_enabled topo, warned (buffer_diagnostics r topo) s)"
  by (simp add: check_buffers_def buffers_enabled_def buffer_diagnostics_def warn_warned
      split: option.splits)

lemma check_delays_eq:
  "check_delays env topo s = (delays_enabled env topo, warned (delay_diagnostics env topo) s)"
  by (simp add: check_delays_def delays_enabled_def delay_diagnostics_def warn_warned
      split: option.splits)

lemma validate_ns2_stacks_Inr: "validate_ns2_stacks topo = Inr (stacks_valid topo)"
  by (simp add: stacks_valid_def validate_ns2_stacks_eq)

lemma check_stacks_eq:
  "check_stacks topo stacks s =
     (Inr (stacks_enabled topo stacks), warned (stack_diagnostics topo stacks) s)"
  by (simp add: check_stacks_def validate_ns2_stacks_Inr stacks_enabled_def declares_stack_def
      stack_diagnostics_def warn_warned)

lemma to_ns2_valid:
  assumes "mako_installed env" and "graph topo ''capacity_unit'' = Some cu"
    and "unit_in cu (capacity_units env)"
  shows "to_ns2 env topo path stacks s =
     write_output env topo path (stacks_enabled topo stacks) (delays_enabled env topo)
       (buffers_enabled topo) (weights_enabled topo) (warned (diagnostics env topo stacks) s)"
  using assms
  by (simp add: to_ns2_def check_buffers_eq check_delays_eq check_stacks_eq diagnostics_def)

section \<open>Rendering, section by section\<close>

lemma bind_e_Inr_iff: "bind_e m f = Inr y \<longleftrightarrow> (\<exists>x. m = Inr x \<and> f x = Inr y)"
  by (cases m) simp_all

lemma for_lines_Inr_iff:
  "for_lines body xs = Inr ls \<longleftrightarrow>
     (\<exists>lss. list_all2 (\<lambda>x l. body x = Inr l) xs lss \<and> ls = concat lss)"
proof (induction xs arbitrary: ls)
  case Nil
  then show ?case by auto
next
  case (Cons x xs)
  show ?case
  proof
    assume "for_lines body (x # xs) = Inr ls"
    then obtain l rest where l: "body x = Inr l" and r: "for_lines body xs = Inr rest"
      and ls: "ls = l @ rest"
      by (auto simp: bind_e_Inr_iff)
    from r Cons.IH obtain lss where "list_all2 (\<lambda>x l. body x = Inr l) xs lss" "rest = concat lss"
      by blast
    with l ls have "list_all2 (\<lambda>x l. body x = Inr l) (x # xs) (l # lss) \<and> ls = concat (l # lss)"
      by simp
    then show "\<exists>lss. list_all2 (\<lambda>x l. body x = Inr l) (x # xs) lss \<and> ls = concat lss"
      by blast
  next
    assume "\<exists>lss. list_all2 (\<lambda>x l. body x = Inr l) (x # xs) lss \<and> ls = concat lss"
    then obtain lss where a: "list_all2 (\<lambda>x l. body x = Inr l) (x # xs) lss" and ls: "ls = concat lss"
      by blast
    from a obtain l lss' where lss: "lss = l # lss'" and l: "body x = Inr l"
      and r: "list_all2 (\<lambda>x l. body x = Inr l) xs lss'"
      by (auto simp: list_all2_Cons1)
    from r Cons.IH have "for_lines body xs = Inr (concat lss')" by blast
    with l ls lss show "for_lines body (x # xs) = Inr ls" by simp
  qed
qed

lemma render_eq:
  "render env topo (stacks_enabled topo stacks) (delays_enabled env topo) (buffers_enabled topo)
     (weights_enabled topo) =
   bind_e (link_section env topo) (\<lambda>links.
   bind_e (weight_section env topo) (\<lambda>weights.
   bind_e (buffer_section env topo) (\<lambda>buffers.
   bind_e (stack_section env topo stacks) (\<lambda>stks.
     Inr (layout (node_section env topo) links weights buffers stks)))))"
proof (cases "capacity_norm_of env topo")
  case (Inl e)
  then show ?thesis by (simp add: render_def link_section_def)
next
  case cn: (Inr capacity_norm)
  show ?thesis
  proof (cases "delay_norm_of env topo (delays_enabled env topo)")
    case (Inl e)
    with cn show ?thesis by (simp add: render_def link_section_def)
  next
    case (Inr delay_norm)
    with cn show ?thesis
      by (simp add: render_def link_section_def weight_section_def buffer_section_def
          stack_section_def node_section_def)
  qed
qed

text \<open>A successful run, described by its sections.\<close>

lemma to_ns2_Inr_iff:
  "to_ns2 env topo path stacks s = (Inr (), s') \<longleftrightarrow>
     mako_installed env
     \<and> (\<exists>cu. graph topo ''capacity_unit'' = Some cu \<and> unit_in cu (capacity_units env))
     \<and> (\<exists>links weights buffers stks.
          link_section env topo = Inr links \<and> weight_section env topo = Inr weights
          \<and> buffer_section env topo = Inr buffers \<and> stack_section env topo stacks = Inr stks
          \<and> s' = s\<lparr>files := (files s)(path \<mapsto> script env topo links weights buffers stks),
                    warnings := warnings s @ diagnostics env topo stacks\<rparr>)"
proof (cases "mako_installed env
     \<and> (\<exists>cu. graph topo ''capacity_unit'' = Some cu \<and> unit_in cu (capacity_units env))")
  case False
  then show ?thesis
    by (auto simp: to_ns2_def Let_def split: option.splits)
next
  case True
  then obtain cu where m: "mako_installed env" and cu: "graph topo ''capacity_unit'' = Some cu"
    and ok: "unit_in cu (capacity_units env)"
    by blast
  show ?thesis
    unfolding to_ns2_valid [OF m cu ok] write_output_def Let_def render_eq
    using m cu ok
    by (cases "link_section env topo"; cases "weight_section env topo";
        cases "buffer_section env topo"; cases "stack_section env topo stacks")
      (auto simp: script_def warned_def)
qed

section \<open>The example, section by section\<close>

lemmas example_defs =
  example_topology_def example_env_def example_float_ops_def example_attrs_def example_node_def
  bare_node_def classless_node_def empty_state_def

lemmas str_defs = int_str_def nat_str.simps digit_chr_def

lemmas command_defs =
  node_command_def link_command_def edge_command_def new_command_def set_command_def
  attach_node_command_def attach_app_command_def

lemmas setting_defs =
  buffers_enabled_def delays_enabled_def stacks_valid_def declares_stack_def stacks_enabled_def
  weights_enabled_def

lemma example_node_section: "node_section example_env example_topology = example_nodes"
  by (simp add: node_section_def example_defs example_nodes_def command_defs str_defs)

lemma example_link_section: "link_section example_env example_topology = Inr example_links"
  by (simp add: link_section_def capacity_norm_of_def delay_norm_of_def render_links_def
      link_line_def link_delay_def getitem_def to_float_def setting_defs
      example_defs example_links_def command_defs str_defs)

lemma example_weight_section: "weight_section example_env example_topology = Inr example_weights"
  by (simp add: weight_section_def render_weights_def direction_lines_def getitem_def
      setting_defs example_defs example_weights_def command_defs str_defs)

lemma example_buffer_section: "buffer_section example_env example_topology = Inr example_buffers"
  by (simp add: buffer_section_def render_buffers_def direction_lines_def getitem_def
      setting_defs example_defs example_buffers_def command_defs str_defs)




section \<open>Stack deployment\<close>

lemma stacks_enabled_downgrade:
  assumes "validate_ns2_stacks topo = Inr False
           \<or> \<not> list_ex (\<lambda>v. stack (node topo v) \<noteq> None) (nodes_iter topo)"
  shows "stacks_enabled topo stacks = False"
  using assms by (auto simp: stacks_enabled_def stacks_valid_def declares_stack_def)

lemma stack_diagnostics_eq:
  "stack_diagnostics topo True = (if validate_ns2_stacks topo = Inr False then [stacks_msg] else [])"
  by (simp add: stack_diagnostics_def validate_ns2_stacks_Inr)

lemma node_update_link_line [simp]:
  "link_line r (topo\<lparr>node := nd\<rparr>) = link_line r topo"
  by (intro ext) (simp add: link_line_def link_delay_def split: prod.splits cong: if_cong)

lemma node_update_direction_lines [simp]:
  "direction_lines r (topo\<lparr>node := nd\<rparr>) = direction_lines r topo"
  by (intro ext) (simp add: direction_lines_def split: prod.splits cong: if_cong)

lemma node_update_sections:
  "node_section env (topo\<lparr>node := nd\<rparr>) = node_section env topo"
  "link_section env (topo\<lparr>node := nd\<rparr>) = link_section env topo"
  "weight_section env (topo\<lparr>node := nd\<rparr>) = weight_section env topo"
  "buffer_section env (topo\<lparr>node := nd\<rparr>) = buffer_section env topo"
  by (simp_all add: node_section_def link_section_def weight_section_def
      buffer_section_def capacity_norm_of_def delay_norm_of_def render_links_def
      render_weights_def render_buffers_def setting_defs cong: if_cong)

lemma stackless_sections:
  "node_section example_env stackless_topology = example_nodes"
  "link_section example_env stackless_topology = Inr example_links"
  "weight_section example_env stackless_topology = Inr example_weights"
  "buffer_section example_env stackless_topology = Inr example_buffers"
  by (simp_all add: stackless_topology_def node_update_sections example_node_section
      example_link_section example_weight_section example_buffer_section)

lemma stackless_valid: "validate_ns2_stacks stackless_topology = Inr True"
  by (simp add: stackless_topology_def validate_ns2_stacks_def validate_node_def
      get_application_names_def get_application_properties_def get_stack_def has_key_def
      getitem_def example_defs)

lemma stackless_no_stack:
  "\<not> list_ex (\<lambda>v. stack (node stackless_topology v) \<noteq> None) (nodes_iter stackless_topology)"
  by (simp add: stackless_topology_def example_defs)

lemma stackless_graph:
  "graph stackless_topology = graph example_topology"
  by (simp add: stackless_topology_def)

lemma example_settings:
  "mako_installed example_env"
  "graph example_topology ''capacity_unit'' = Some (VStr ''Gbps'')"
  "unit_in (VStr ''Gbps'') (capacity_units example_env)"
  "buffer_diagnostics (rt example_env) example_topology = []"
  "delay_diagnostics example_env example_topology = []"
  by (simp_all add: example_defs buffer_diagnostics_def delay_diagnostics_def delays_enabled_def)

text \<open>
  Claim C8, as stated, fails. On a topology whose nodes declare neither stacks nor
  applications, converted with stack deployment requested, \<open>validate_ns2_stacks\<close> is true,
  no node declares a stack, deployment is switched off, and no diagnostic at all is issued.
\<close>

theorem to_ns2_stackless_silent:
  "validate_ns2_stacks stackless_topology = Inr True
   \<and> \<not> list_ex (\<lambda>v. stack (node stackless_topology v) \<noteq> None) (nodes_iter stackless_topology)
   \<and> to_ns2 example_env stackless_topology ''out.tcl'' True empty_state =
       (Inr (),
        \<lparr>files = [''out.tcl'' \<mapsto>
                    unlines (layout example_nodes example_links example_weights example_buffers [])],
         warnings = []\<rparr>)"
proof -
  have en: "stacks_enabled stackless_topology True = False"
    using stackless_no_stack by (rule stacks_enabled_downgrade [OF disjI2])
  have st: "stack_section example_env stackless_topology True = Inr []"
    by (simp add: stack_section_def en render_stacks_def)
  have dg: "diagnostics example_env stackless_topology True = []"
    using example_settings stackless_valid
    by (simp add: diagnostics_def buffer_diagnostics_def delay_diagnostics_def
        delays_enabled_def stackless_graph stack_diagnostics_eq)
  have "to_ns2 example_env stackless_topology ''out.tcl'' True empty_state =
      (Inr (), empty_state\<lparr>files := (files empty_state)(''out.tcl'' \<mapsto>
          script example_env stackless_topology example_links example_weights example_buffers []),
        warnings := warnings empty_state @ diagnostics example_env stackless_topology True\<rparr>)"
    unfolding to_ns2_Inr_iff
    using example_settings stackless_sections st by (simp add: stackless_graph)
  then show ?thesis
    using stackless_valid stackless_no_stack
    by (simp add: dg script_def stackless_sections empty_state_def)
qed

text \<open>
  Claim C8, amended. When stack deployment is requested and either
  \<open>validate_ns2_stacks\<close> returns false or no node declares a stack, deployment is switched
  off: whenever the link, weight and buffer sections render, the conversion succeeds and
  writes a script with exactly these sections and an empty deployment section. The stack
  diagnostic is issued exactly when \<open>validate_ns2_stacks\<close> returns false; when no node
  declares a stack and the validation is true, deployment is switched off silently.
\<close>

theorem to_ns2_stacks_downgrade:
  assumes "mako_installed env" and "graph topo ''capacity_unit'' = Some cu"
    and "unit_in cu (capacity_units env)"
    and "validate_ns2_stacks topo = Inr False
         \<or> \<not> list_ex (\<lambda>v. stack (node topo v) \<noteq> None) (nodes_iter topo)"
    and "link_section env topo = Inr links" and "weight_section env topo = Inr weights"
    and "buffer_section env topo = Inr buffers"
  shows "to_ns2 env topo path True s =
     (Inr (),
      s\<lparr>files := (files s)(path \<mapsto> script env topo links weights buffers []),
        warnings := warnings s @ buffer_diagnostics (rt env) topo @ delay_diagnostics env topo
          @ (if validate_ns2_stacks topo = Inr False then [stacks_msg] else [])\<rparr>)"
proof -
  have "stack_section env topo True = Inr []"
    by (simp add: stack_section_def stacks_enabled_downgrade [OF assms(4)] render_stacks_def)
  with assms show ?thesis
    unfolding to_ns2_Inr_iff by (simp add: diagnostics_def stack_diagnostics_eq)
qed

lemma classless_sections:
  "node_section example_env classless_topology = example_nodes"
  "link_section example_env classless_topology = Inr example_links"
  "weight_section example_env classless_topology = Inr example_weights"
  "buffer_section example_env classless_topology = Inr example_buffers"
  by (simp_all add: classless_topology_def node_update_sections example_node_section
      example_link_section example_weight_section example_buffer_section)

lemma classless_invalid: "validate_ns2_stacks classless_topology = Inr False"
  by (simp add: classless_topology_def validate_ns2_stacks_def validate_node_def
      get_application_names_def get_application_properties_def get_stack_def has_key_def
      getitem_def example_defs)

theorem to_ns2_stacks_downgrade_witness:
  "to_ns2 example_env classless_topology ''out.tcl'' True empty_state =
     (Inr (),
      \<lparr>files = [''out.tcl'' \<mapsto>
                  unlines (layout example_nodes example_links example_weights example_buffers [])],
       warnings = [stacks_msg]\<rparr>)
   \<and> to_ns2 example_env stackless_topology ''out.tcl'' True empty_state =
     (Inr (),
      \<lparr>files = [''out.tcl'' \<mapsto>
                  unlines (layout example_nodes example_links example_weights example_buffers [])],
       warnings = []\<rparr>)"
proof -
  have g: "graph classless_topology = graph example_topology"
    by (simp add: classless_topology_def)
  have a: "graph classless_topology ''capacity_unit'' = Some (VStr ''Gbps'')"
    and b: "graph stackless_topology ''capacity_unit'' = Some (VStr ''Gbps'')"
    using example_settings by (simp_all add: g stackless_graph)
  have bd: "buffer_diagnostics (rt example_env) classless_topology = []"
    "delay_diagnostics example_env classless_topology = []"
    "buffer_diagnostics (rt example_env) stackless_topology = []"
    "delay_diagnostics example_env stackless_topology = []"
    using example_settings
    by (simp_all add: buffer_diagnostics_def delay_diagnostics_def delays_enabled_def g
        stackless_graph)
  from to_ns2_stacks_downgrade [OF example_settings(1) a example_settings(3)
      disjI1 [OF classless_invalid] classless_sections(2,3,4), of "''out.tcl''" empty_state]
    to_ns2_stacks_downgrade [OF example_settings(1) b example_settings(3)
      disjI2 [OF stackless_no_stack] stackless_sections(2,3,4), of "''out.tcl''" empty_state]
  show ?thesis
    by (simp add: bd classless_invalid stackless_valid script_def classless_sections
        stackless_sections empty_state_def)
qed

section \<open>Writing the output\<close>



lemma write_output_other:
  "p \<noteq> path \<Longrightarrow> files (snd (write_output env topo path a b c d s)) p = files s p"
  by (simp add: write_output_def Let_def split: sum.splits)



section \<open>The reduced example, section by section\<close>

lemma reduced_settings:
  "graph reduced_topology ''capacity_unit'' = Some (VStr ''Gbps'')"
  "graph reduced_topology ''delay_unit'' = None"
  "graph reduced_topology ''buffer_unit'' = Some (VStr ''bytes'')"
  "buffer_diagnostics (rt example_env) reduced_topology = [buffer_unit_msg ''bytes'']"
  "delay_diagnostics example_env reduced_topology = [delay_msg]"
  by (simp_all add: reduced_topology_def buffer_diagnostics_def delay_diagnostics_def
      delays_enabled_def)

lemma reduced_node_section: "node_section example_env reduced_topology = example_nodes"
  by (simp add: node_section_def reduced_topology_def example_env_def example_float_ops_def
      example_nodes_def command_defs str_defs)

lemma reduced_link_section: "link_section example_env reduced_topology = Inr reduced_links"
  by (simp add: link_section_def capacity_norm_of_def delay_norm_of_def render_links_def
      link_line_def link_delay_def getitem_def to_float_def setting_defs
      reduced_topology_def reduced_attrs_def example_env_def example_float_ops_def
      reduced_links_def command_defs str_defs)

lemma reduced_weight_section: "weight_section example_env reduced_topology = Inr []"
  by (simp add: weight_section_def render_weights_def setting_defs reduced_topology_def
      reduced_attrs_def)

lemma reduced_buffer_section: "buffer_section example_env reduced_topology = Inr []"
  by (simp add: buffer_section_def render_buffers_def setting_defs reduced_topology_def)

lemma reduced_stacks_valid: "validate_ns2_stacks reduced_topology = Inr True"
  by (simp add: validate_ns2_stacks_def validate_node_def get_application_names_def
      get_application_properties_def get_stack_def has_key_def getitem_def
      reduced_topology_def example_node_def)

lemma reduced_stack_section:
  "stack_section example_env reduced_topology True = Inr example_stacks"
  using reduced_stacks_valid
  by (simp add: stack_section_def render_stacks_def node_stack_lines_def app_lines_def
      prop_lines_def get_application_names_def get_application_properties_def get_stack_def
      getitem_def setting_defs reduced_topology_def example_node_def example_env_def
      example_float_ops_def example_stacks_def command_defs str_defs)

lemma reduced_diagnostics:
  "diagnostics example_env reduced_topology True = [buffer_unit_msg ''bytes'', delay_msg]"
  using reduced_stacks_valid
  by (simp add: diagnostics_def reduced_settings stack_diagnostics_def stacks_valid_def)


lemma reduced_run:
  "to_ns2 example_env reduced_topology ''out.tcl'' True empty_state =
     (Inr (),
      \<lparr>files = [''out.tcl'' \<mapsto> unlines (layout example_nodes reduced_links [] []
                    example_stacks)],
       warnings = [buffer_unit_msg ''bytes'', delay_msg]\<rparr>)"
  unfolding to_ns2_Inr_iff
  using example_settings reduced_settings
  by (simp add: reduced_link_section reduced_weight_section reduced_buffer_section
      reduced_stack_section reduced_diagnostics script_def reduced_node_section
      empty_state_def)

section \<open>The link section\<close>





lemma delays_disabled:
  assumes "graph topo ''delay_unit'' = None
           \<or> (\<exists>du. graph topo ''delay_unit'' = Some du \<and> \<not> unit_in du (time_units env))"
  shows "\<not> delays_enabled env topo"
  using assms by (auto simp: delays_enabled_def)

section \<open>Disabled delays\<close>



section \<open>Disabled delays and the stored delays\<close>

lemma with_delays_fields [simp]:
  "graph (with_delays d topo) = graph topo"
  "is_directed (with_delays d topo) = is_directed topo"
  "nodes_iter (with_delays d topo) = nodes_iter topo"
  "node (with_delays d topo) = node topo"
  "edges_iter (with_delays d topo) = edges_iter topo"
  "k \<noteq> ''delay'' \<Longrightarrow> edge (with_delays d topo) u v k = edge topo u v k"
  by (simp_all add: with_delays_def)

lemma with_delays_validate_nodes:
  "validate_nodes (with_delays d topo) ns = validate_nodes topo ns"
proof -
  have a: "validate_apps (with_delays d topo) n names = validate_apps topo n names"
    for n names
    by (induction names) (simp_all add: get_application_properties_def cong: if_cong)
  have "validate_node (with_delays d topo) n = validate_node topo n" for n
    by (simp add: validate_node_def a get_application_names_def get_stack_def cong: if_cong)
  then show ?thesis
    by (induction ns) (simp_all cong: if_cong)
qed

lemma with_delays_settings [simp]:
  "weights_enabled (with_delays d topo) = weights_enabled topo"
  "buffers_enabled (with_delays d topo) = buffers_enabled topo"
  "delays_enabled env (with_delays d topo) = delays_enabled env topo"
  "stacks_enabled (with_delays d topo) stacks = stacks_enabled topo stacks"
  "diagnostics env (with_delays d topo) stacks = diagnostics env topo stacks"
  by (simp_all add: weights_enabled_def buffers_enabled_def delays_enabled_def
      stacks_enabled_def stacks_valid_def declares_stack_def diagnostics_def
      buffer_diagnostics_def delay_diagnostics_def stack_diagnostics_def
      validate_ns2_stacks_def with_delays_validate_nodes)

lemma with_delays_link_line:
  "link_line r (with_delays d topo) kind cn False dn = link_line r topo kind cn False dn"
  by (intro ext) (simp add: link_line_def link_delay_def getitem_def split: prod.splits)

lemma with_delays_direction_lines:
  "key \<noteq> ''delay'' \<Longrightarrow>
   direction_lines r (with_delays d topo) cmd key = direction_lines r topo cmd key"
  by (intro ext) (simp add: direction_lines_def getitem_def split: prod.splits cong: if_cong)

lemma with_delays_node_stack_lines:
  "node_stack_lines r (with_delays d topo) = node_stack_lines r topo"
proof -
  have "app_lines r (with_delays d topo) n sn = app_lines r topo n sn" for n sn
    by (intro ext) (simp add: app_lines_def get_application_properties_def)
  then show ?thesis
    by (intro ext)
      (simp add: node_stack_lines_def get_stack_def get_application_names_def
        split: option.splits prod.splits)
qed

lemma with_delays_render:
  "render env (with_delays d topo) a False b c = render env topo a False b c"
  by (simp add: render_def capacity_norm_of_def delay_norm_of_def render_links_def
      render_weights_def render_buffers_def render_stacks_def with_delays_link_line
      with_delays_direction_lines with_delays_node_stack_lines cong: if_cong)

lemma with_delays_write_output:
  "write_output env (with_delays d topo) path a False b c s
     = write_output env topo path a False b c s"
  by (simp add: write_output_def with_delays_render)

text \<open>
  Claim C10. When the graph attributes have no \<open>delay_unit\<close>, or its value is not a key
  of \<open>time_units\<close>, the delay check switches delays off, no delay factor is computed, and
  the stored delays are never read: replacing or removing the \<open>delay\<close> attribute of the
  edges in any way leaves the whole outcome of the conversion (result, files, warnings)
  unchanged. In particular the conversion of a topology succeeds without any \<open>delay\<close>
  attribute whenever it succeeds with some.
\<close>

theorem to_ns2_delay_unread:
  assumes "graph topo ''delay_unit'' = None
           \<or> (\<exists>du. graph topo ''delay_unit'' = Some du \<and> \<not> unit_in du (time_units env))"
  shows "fst (check_delays env topo s) = False
     \<and> delay_norm_of env topo (fst (check_delays env topo s)) = Inr None
     \<and> to_ns2 env (with_delays d topo) path stacks s = to_ns2 env topo path stacks s"
proof -
  have off: "\<not> delays_enabled env topo"
    using assms by (rule delays_disabled)
  have "to_ns2 env (with_delays d topo) path stacks s = to_ns2 env topo path stacks s"
  proof (cases "mako_installed env
     \<and> (\<exists>cu. graph topo ''capacity_unit'' = Some cu \<and> unit_in cu (capacity_units env))")
    case True
    then obtain cu where m: "mako_installed env" and cu: "graph topo ''capacity_unit'' = Some cu"
      and ok: "unit_in cu (capacity_units env)"
      by blast
    from cu have cu': "graph (with_delays d topo) ''capacity_unit'' = Some cu" by simp
    show ?thesis
      unfolding to_ns2_valid [OF m cu ok] to_ns2_valid [OF m cu' ok]
      by (simp add: off with_delays_write_output)
  next
    case False
    then show ?thesis
      by (auto simp: to_ns2_def Let_def split: option.splits)
  qed
  with off show ?thesis
    by (simp add: check_delays_eq delay_norm_of_def)
qed

theorem to_ns2_delay_unread_witness:
  "edge reduced_topology (VInt 1) (VInt 2) ''delay'' = None
   \<and> to_ns2 example_env reduced_topology ''out.tcl'' True empty_state =
     (Inr (),
      \<lparr>files = [''out.tcl'' \<mapsto> unlines (layout example_nodes reduced_links [] []
                    example_stacks)],
       warnings = [buffer_unit_msg ''bytes'', delay_msg]\<rparr>)
   \<and> to_ns2 example_env (with_delays (\<lambda>u v. Some (VInt 7)) reduced_topology) ''out.tcl'' True
       empty_state =
     (Inr (),
      \<lparr>files = [''out.tcl'' \<mapsto> unlines (layout example_nodes reduced_links [] []
                    example_stacks)],
       warnings = [buffer_unit_msg ''bytes'', delay_msg]\<rparr>)"
proof -
  have h: "graph reduced_topology ''delay_unit'' = None
           \<or> (\<exists>du. graph reduced_topology ''delay_unit'' = Some du
                \<and> \<not> unit_in du (time_units example_env))"
    by (simp add: reduced_settings)
  from to_ns2_delay_unread [OF h, of empty_state "\<lambda>u v. Some (VInt 7)" "''out.tcl''" True]
  show ?thesis
    using reduced_run by (simp add: reduced_topology_def reduced_attrs_def)
qed

section \<open>Determinism\<close>




end
